theory Spec2Isabelle
  imports Main "HOL-Library.Word"
begin

section \<open>JavaScript strings\<close>

text \<open>
  A JavaScript string is a sequence of 16-bit code units. The string literals of the source
  are ASCII; \<open>lit\<close> turns such a literal into its code units.
\<close>

type_synonym jsstring = "16 word list"

definition lit :: "string \<Rightarrow> jsstring" where
  "lit s = map of_char s"

text \<open>
  \<open>String.prototype.trim\<close> strips the ECMAScript WhiteSpace and LineTerminator code points
  from both ends: TAB, LF, VT, FF, CR, SP, NBSP, the Unicode space separators
  (U+1680, U+2000 to U+200A, U+202F, U+205F, U+3000), LS, PS and the byte order mark.
\<close>

definition is_white_space :: "16 word \<Rightarrow> bool" where
  "is_white_space c \<longleftrightarrow>
     c = 0x0009 \<or> c = 0x000A \<or> c = 0x000B \<or> c = 0x000C \<or> c = 0x000D \<or> c = 0x0020 \<or>
     c = 0x00A0 \<or> c = 0x1680 \<or> (0x2000 \<le> c \<and> c \<le> 0x200A) \<or>
     c = 0x2028 \<or> c = 0x2029 \<or> c = 0x202F \<or> c = 0x205F \<or> c = 0x3000 \<or> c = 0xFEFF"

definition trim :: "jsstring \<Rightarrow> jsstring" where
  "trim s = rev (dropWhile is_white_space (rev (dropWhile is_white_space s)))"

text \<open>
  The result of \<open>localStorage.getItem\<close> and of \<open>URLSearchParams.get\<close> is a string or
  \<open>null\<close>; in a condition, \<open>null\<close> and the empty string count as false.
\<close>

definition truthy :: "jsstring option \<Rightarrow> bool" where
  "truthy x = (case x of None \<Rightarrow> False | Some s \<Rightarrow> s \<noteq> [])"

text \<open>The claims speak of a text that is empty or consists of white space only.\<close>

definition whitespace_only :: "jsstring \<Rightarrow> bool" where
  "whitespace_only s = list_all is_white_space s"


section \<open>Data model\<close>

text \<open>
  The two variants of the controller under \<open>src/\<close>: \<open>frontend/src/App.js\<close> and the earlier
  \<open>unnamed/part_001\<close>. They differ in two message texts and in the handling of a successful
  OAuth callback. The third file, \<open>unnamed/part_000\<close>, has the manual path only: no
  session, no storage and one screen. Its \<open>analyzeCalendar\<close> and \<open>resetAnalysis\<close> are
  \<open>analyzeCalendarManual\<close> and \<open>resetAnalysis\<close> of \<open>part_001\<close> with the same texts; its
  selector has the options of the manual-entry screen and its initial time period is
  \<open>this week\<close>.
\<close>

datatype variant = App_js | Part_001

text \<open>The user object \<open>{ id, name, email }\<close>; \<open>name\<close> is \<open>null\<close> when the callback carries none.\<close>

record profile =
  email :: jsstring
  name :: "jsstring option"
  uid :: jsstring

text \<open>
  The seven \<open>useState\<close> cells of \<open>App\<close>. The analysis result is only stored and displayed,
  so its type is a parameter. The cell holds \<open>null\<close> at first and later whatever body a
  successful reply had; \<open>None\<close> is \<open>null\<close> or another value that counts as false in
  \<open>!analysis\<close>, such as the empty string of an empty body.
\<close>

record 'r app_state =
  user :: "profile option"
  calendarData :: jsstring
  timePeriod :: jsstring
  analysis :: "'r option"
  loading :: bool
  error :: jsstring
  showManual :: bool

definition initial_state :: "'r app_state" where
  "initial_state =
     \<lparr>user = None, calendarData = [], timePeriod = lit ''this_week'', analysis = None,
      loading = False, error = [], showManual = False\<rparr>"

text \<open>The four calls the controller makes through \<open>axios\<close>.\<close>

datatype request =
    PostAuthGoogle jsstring
  | GetAuthGoogleCalendar
  | PostAnalyzeAuto jsstring "jsstring option"
  | PostAnalyzeManual jsstring jsstring

text \<open>
  A rejected call: no response at all (\<open>err.response\<close> undefined), or a response with a
  status and, perhaps, a \<open>detail\<close> string in its body.
\<close>

datatype failure = NoResponse | HttpError nat "jsstring option"

text \<open>
  What the controller reaches of the browser: \<open>localStorage\<close>, the query parameters of the
  page as \<open>URLSearchParams.get\<close> returns them, an assignment to \<open>window.location.href\<close>,
  a call of \<open>window.location.reload\<close>, the calls issued so far (oldest first) and the
  indices of those already settled.
\<close>

record browser =
  storage :: "string \<rightharpoonup> jsstring"
  search :: "string \<rightharpoonup> jsstring"
  href :: "jsstring option"
  reloaded :: bool
  requests :: "request list"
  settled :: "nat list"

type_synonym 'r world = "'r app_state \<times> browser"

text \<open>
  \<open>JSON.parse\<close> and \<open>JSON.stringify\<close> belong to the platform and are parameters of the model.
  \<open>JSON.parse\<close> throws a \<open>SyntaxError\<close> or returns a value; the values considered are
  \<open>null\<close> and a user object.
\<close>

datatype exn = SyntaxError

record json =
  JSON_parse :: "jsstring \<Rightarrow> exn + profile option"
  JSON_stringify :: "profile \<Rightarrow> jsstring"


section \<open>Messages\<close>

definition msg_oauth_failed :: jsstring where
  "msg_oauth_failed = lit ''Google Calendar authorization failed. Please try again.''"

definition msg_login_failed :: jsstring where
  "msg_login_failed = lit ''Login failed. Please try again.''"

definition msg_google_login_failed :: jsstring where
  "msg_google_login_failed = lit ''Google login failed. Please try again.''"

definition msg_calendar_access_failed :: jsstring where
  "msg_calendar_access_failed = lit ''Failed to request calendar access.''"

definition msg_calendar_access_required :: jsstring where
  "msg_calendar_access_required =
     lit ''Calendar access required. Please authorize Google Calendar access first.''"

definition msg_auto_failed :: jsstring where
  "msg_auto_failed = lit ''Failed to analyze calendar. Please try again.''"

fun msg_paste_first :: "variant \<Rightarrow> jsstring" where
  "msg_paste_first App_js = lit ''Please paste your schedule data first!''"
| "msg_paste_first Part_001 = lit ''Please paste your calendar data first!''"

fun msg_manual_failed :: "variant \<Rightarrow> jsstring" where
  "msg_manual_failed App_js = lit ''Failed to analyze your freedom. Please try again.''"
| "msg_manual_failed Part_001 = lit ''Failed to analyze calendar. Please try again.''"

text \<open>\<open>err.response?.status\<close> and \<open>err.response?.data?.detail || fallback\<close>.\<close>

fun status :: "failure \<Rightarrow> nat option" where
  "status NoResponse = None"
| "status (HttpError n d) = Some n"

fun detail :: "failure \<Rightarrow> jsstring option" where
  "detail NoResponse = None"
| "detail (HttpError n d) = d"

definition detail_or :: "failure \<Rightarrow> jsstring \<Rightarrow> jsstring" where
  "detail_or err fallback =
     (case detail err of None \<Rightarrow> fallback | Some m \<Rightarrow> if m = [] then fallback else m)"


section \<open>Initialisation: the effect run once after the first render\<close>

definition restore_session :: "json \<Rightarrow> 'r world \<Rightarrow> exn + 'r world" where
  "restore_session J w =
     (case w of (s, b) \<Rightarrow>
        (case (storage b ''access_token'', storage b ''user_data'') of
           (Some token, Some userData) \<Rightarrow>
             if token \<noteq> [] \<and> userData \<noteq> [] then
               (case JSON_parse J userData of
                  Inl e \<Rightarrow> Inl e
                | Inr u \<Rightarrow> Inr (s\<lparr>user := u\<rparr>, b))
             else Inr (s, b)
         | _ \<Rightarrow> Inr (s, b)))"

text \<open>
  The condition \<open>authStatus === 'success' && authToken && userEmail\<close> of \<open>App.js\<close>, giving the
  token and the e-mail address when it holds.
\<close>

definition callback_credentials :: "browser \<Rightarrow> (jsstring \<times> jsstring) option" where
  "callback_credentials b =
     (if search b ''auth'' = Some (lit ''success'') then
        (case (search b ''token'', search b ''user'') of
           (Some authToken, Some userEmail) \<Rightarrow>
             if authToken \<noteq> [] \<and> userEmail \<noteq> [] then Some (authToken, userEmail) else None
         | _ \<Rightarrow> None)
      else None)"

fun oauth_callback :: "variant \<Rightarrow> json \<Rightarrow> 'r world \<Rightarrow> 'r world" where
  "oauth_callback App_js J (s, b) =
     (case callback_credentials b of
        Some (authToken, userEmail) \<Rightarrow>
          (let u = \<lparr>email = userEmail, name = search b ''name'', uid = userEmail\<rparr> in
           (s\<lparr>user := Some u\<rparr>,
            b\<lparr>storage := (storage b)(''access_token'' \<mapsto> authToken,
                                      ''user_data'' \<mapsto> JSON_stringify J u),
              search := Map.empty\<rparr>))
      | None \<Rightarrow>
          if search b ''auth'' = Some (lit ''error'') then (s\<lparr>error := msg_oauth_failed\<rparr>, b)
          else (s, b))"
| "oauth_callback Part_001 J (s, b) =
     (if search b ''auth'' = Some (lit ''success'') then
        (s, b\<lparr>search := Map.empty, reloaded := True\<rparr>)
      else if search b ''auth'' = Some (lit ''error'') then (s\<lparr>error := msg_oauth_failed\<rparr>, b)
      else (s, b))"

definition useEffect :: "variant \<Rightarrow> json \<Rightarrow> 'r world \<Rightarrow> exn + 'r world" where
  "useEffect v J w =
     (case restore_session J w of Inl e \<Rightarrow> Inl e | Inr w' \<Rightarrow> Inr (oauth_callback v J w'))"


section \<open>Operations\<close>

text \<open>
  An operation that awaits a reply has two parts: what runs when it is invoked, up to the
  call, and what runs when the call is settled. The reply is \<open>Inr\<close> of the payload or
  \<open>Inl\<close> of the failure. The payload of an analysis call is \<open>response.data\<close>, stored as it
  is: \<open>Some\<close> of a result, or \<open>None\<close> when the body is \<open>null\<close> or empty.
\<close>

fun handleGoogleLogin_begin :: "jsstring \<Rightarrow> 'r world \<Rightarrow> 'r world" where
  "handleGoogleLogin_begin credential (s, b) =
     (s\<lparr>loading := True, error := []\<rparr>,
      b\<lparr>requests := requests b @ [PostAuthGoogle credential]\<rparr>)"

fun handleGoogleLogin_settle ::
  "json \<Rightarrow> failure + jsstring \<times> profile \<Rightarrow> 'r world \<Rightarrow> 'r world" where
  "handleGoogleLogin_settle J (Inr (access_token, userData)) (s, b) =
     (s\<lparr>user := Some userData, loading := False\<rparr>,
      b\<lparr>storage := (storage b)(''access_token'' \<mapsto> access_token,
                                ''user_data'' \<mapsto> JSON_stringify J userData)\<rparr>)"
| "handleGoogleLogin_settle J (Inl err) (s, b) =
     (s\<lparr>error := detail_or err msg_login_failed, loading := False\<rparr>, b)"

definition handleGoogleLoginError :: "'r app_state \<Rightarrow> 'r app_state" where
  "handleGoogleLoginError s = s\<lparr>error := msg_google_login_failed\<rparr>"

fun requestCalendarAccess_begin :: "'r world \<Rightarrow> 'r world" where
  "requestCalendarAccess_begin (s, b) =
     (s\<lparr>loading := True, error := []\<rparr>, b\<lparr>requests := requests b @ [GetAuthGoogleCalendar]\<rparr>)"

fun requestCalendarAccess_settle :: "failure + jsstring \<Rightarrow> 'r world \<Rightarrow> 'r world" where
  "requestCalendarAccess_settle (Inr authorization_url) (s, b) =
     (s, b\<lparr>href := Some authorization_url\<rparr>)"
| "requestCalendarAccess_settle (Inl err) (s, b) =
     (s\<lparr>error := detail_or err msg_calendar_access_failed, loading := False\<rparr>, b)"

fun analyzeCalendarAuto_begin :: "'r world \<Rightarrow> 'r world" where
  "analyzeCalendarAuto_begin (s, b) =
     (s\<lparr>loading := True, error := []\<rparr>,
      b\<lparr>requests := requests b @ [PostAnalyzeAuto (timePeriod s) (storage b ''access_token'')]\<rparr>)"

fun analyzeCalendarAuto_settle ::
  "failure + 'r option \<Rightarrow> 'r app_state \<Rightarrow> 'r app_state" where
  "analyzeCalendarAuto_settle (Inr data) s = s\<lparr>analysis := data, loading := False\<rparr>"
| "analyzeCalendarAuto_settle (Inl err) s =
     s\<lparr>error := (if status err = Some 401 then msg_calendar_access_required
                  else detail_or err msg_auto_failed),
       loading := False\<rparr>"

text \<open>The whole operation, with nothing else happening between the call and its reply.\<close>

definition analyzeCalendarAuto :: "failure + 'r option \<Rightarrow> 'r world \<Rightarrow> 'r world" where
  "analyzeCalendarAuto reply w =
     (case analyzeCalendarAuto_begin w of (s', b') \<Rightarrow> (analyzeCalendarAuto_settle reply s', b'))"

fun analyzeCalendarManual_begin :: "variant \<Rightarrow> 'r world \<Rightarrow> 'r world" where
  "analyzeCalendarManual_begin v (s, b) =
     (if trim (calendarData s) = [] then (s\<lparr>error := msg_paste_first v\<rparr>, b)
      else (s\<lparr>loading := True, error := []\<rparr>,
            b\<lparr>requests := requests b @ [PostAnalyzeManual (calendarData s) (timePeriod s)]\<rparr>))"

fun analyzeCalendarManual_settle ::
  "variant \<Rightarrow> failure + 'r option \<Rightarrow> 'r app_state \<Rightarrow> 'r app_state" where
  "analyzeCalendarManual_settle v (Inr data) s = s\<lparr>analysis := data, loading := False\<rparr>"
| "analyzeCalendarManual_settle v (Inl err) s =
     s\<lparr>error := detail_or err (msg_manual_failed v), loading := False\<rparr>"

text \<open>
  The whole operation: after the early \<open>return\<close> nothing is awaited, so the reply is not
  used.
\<close>

fun analyzeCalendarManual ::
  "variant \<Rightarrow> failure + 'r option \<Rightarrow> 'r world \<Rightarrow> 'r world" where
  "analyzeCalendarManual v reply (s, b) =
     (if trim (calendarData s) = [] then analyzeCalendarManual_begin v (s, b)
      else (case analyzeCalendarManual_begin v (s, b) of
              (s', b') \<Rightarrow> (analyzeCalendarManual_settle v reply s', b')))"

fun logout :: "'r world \<Rightarrow> 'r world" where
  "logout (s, b) =
     (s\<lparr>user := None, analysis := None, calendarData := [], error := [], showManual := False\<rparr>,
      b\<lparr>storage := (storage b)(''access_token'' := None, ''user_data'' := None)\<rparr>)"

definition resetAnalysis :: "'r app_state \<Rightarrow> 'r app_state" where
  "resetAnalysis s = s\<lparr>analysis := None, calendarData := [], error := []\<rparr>"


section \<open>Rendering\<close>

datatype screen = ManualEntryScreen | LoginScreen | DashboardScreen

text \<open>Which of its three trees \<open>App\<close> returns.\<close>

definition App :: "'r app_state \<Rightarrow> screen" where
  "App s = (if showManual s then ManualEntryScreen
            else if user s = None then LoginScreen
            else DashboardScreen)"

text \<open>The \<open>value\<close> attributes of the options of the two time-period selectors.\<close>

definition manual_options :: "jsstring list" where
  "manual_options = [lit ''today'', lit ''this week'', lit ''this month'', lit ''recent days'']"

definition dashboard_options :: "jsstring list" where
  "dashboard_options = [lit ''today'', lit ''this_week'', lit ''this_month'', lit ''recent_days'']"

text \<open>
  The enumeration of time periods as the specification documents it, to compare the
  selectors with.
\<close>

definition spec_time_periods :: "jsstring list" where
  "spec_time_periods = [lit ''today'', lit ''this_week'', lit ''this_month'', lit ''recent_days'']"


section \<open>Events\<close>

text \<open>
  What can happen to a mounted \<open>App\<close>: the user acts on a control of the screen shown, or a
  call issued earlier is settled.
\<close>

datatype 'r reply =
    LoginReply "failure + jsstring \<times> profile"
  | AuthUrlReply "failure + jsstring"
  | AnalysisReply "failure + 'r option"

datatype 'r event =
    GoogleLoginSuccess jsstring
  | GoogleLoginError
  | ClickShowManual
  | ClickBackToLogin
  | SelectTimePeriod jsstring
  | EditCalendarData jsstring
  | ClickAnalyzeManual
  | ClickAnalyzeAuto
  | ClickAuthorize
  | ClickReset
  | ClickLogout
  | Settle nat "'r reply"

text \<open>
  The controls each screen offers. The manual-entry screen and the dashboard show the form
  while there is no result and the result with its reset button otherwise; the analyze
  buttons carry \<open>disabled={loading}\<close> or \<open>disabled={loading || !calendarData.trim()}\<close>.
\<close>

fun fits :: "request \<Rightarrow> 'r reply \<Rightarrow> bool" where
  "fits (PostAuthGoogle c) (LoginReply r) = True"
| "fits GetAuthGoogleCalendar (AuthUrlReply r) = True"
| "fits (PostAnalyzeAuto p t) (AnalysisReply r) = True"
| "fits (PostAnalyzeManual d p) (AnalysisReply r) = True"
| "fits q r = False"

fun offered :: "'r world \<Rightarrow> 'r event \<Rightarrow> bool" where
  "offered (s, b) (GoogleLoginSuccess c) = (App s = LoginScreen)"
| "offered (s, b) GoogleLoginError = (App s = LoginScreen)"
| "offered (s, b) ClickShowManual = (App s = LoginScreen)"
| "offered (s, b) ClickBackToLogin = (App s = ManualEntryScreen)"
| "offered (s, b) (SelectTimePeriod p) =
     (analysis s = None \<and>
      (App s = ManualEntryScreen \<and> p \<in> set manual_options \<or>
       App s = DashboardScreen \<and> p \<in> set dashboard_options))"
| "offered (s, b) (EditCalendarData t) = (analysis s = None \<and> App s \<noteq> LoginScreen)"
| "offered (s, b) ClickAnalyzeManual =
     (analysis s = None \<and> App s \<noteq> LoginScreen \<and> \<not> (loading s \<or> trim (calendarData s) = []))"
| "offered (s, b) ClickAnalyzeAuto = (analysis s = None \<and> App s = DashboardScreen \<and> \<not> loading s)"
| "offered (s, b) ClickAuthorize = (analysis s = None \<and> App s = DashboardScreen)"
| "offered (s, b) ClickReset = (analysis s \<noteq> None \<and> App s \<noteq> LoginScreen)"
| "offered (s, b) ClickLogout = (App s = DashboardScreen)"
| "offered (s, b) (Settle i r) =
     (i < length (requests b) \<and> i \<notin> set (settled b) \<and> fits (requests b ! i) r)"

fun settle :: "variant \<Rightarrow> json \<Rightarrow> request \<Rightarrow> 'r reply \<Rightarrow> 'r world \<Rightarrow> 'r world" where
  "settle v J (PostAuthGoogle c) (LoginReply r) w = handleGoogleLogin_settle J r w"
| "settle v J GetAuthGoogleCalendar (AuthUrlReply r) w = requestCalendarAccess_settle r w"
| "settle v J (PostAnalyzeAuto p t) (AnalysisReply r) (s, b) = (analyzeCalendarAuto_settle r s, b)"
| "settle v J (PostAnalyzeManual d p) (AnalysisReply r) (s, b) =
     (analyzeCalendarManual_settle v r s, b)"
| "settle v J q r w = w"

fun handle :: "variant \<Rightarrow> json \<Rightarrow> 'r event \<Rightarrow> 'r world \<Rightarrow> 'r world" where
  "handle v J (GoogleLoginSuccess c) w = handleGoogleLogin_begin c w"
| "handle v J GoogleLoginError (s, b) = (handleGoogleLoginError s, b)"
| "handle v J ClickShowManual (s, b) = (s\<lparr>showManual := True\<rparr>, b)"
| "handle v J ClickBackToLogin (s, b) = (s\<lparr>showManual := False\<rparr>, b)"
| "handle v J (SelectTimePeriod p) (s, b) = (s\<lparr>timePeriod := p\<rparr>, b)"
| "handle v J (EditCalendarData t) (s, b) = (s\<lparr>calendarData := t\<rparr>, b)"
| "handle v J ClickAnalyzeManual w = analyzeCalendarManual_begin v w"
| "handle v J ClickAnalyzeAuto w = analyzeCalendarAuto_begin w"
| "handle v J ClickAuthorize w = requestCalendarAccess_begin w"
| "handle v J ClickReset (s, b) = (resetAnalysis s, b)"
| "handle v J ClickLogout w = logout w"
| "handle v J (Settle i r) (s, b) =
     settle v J (requests b ! i) r (s, b\<lparr>settled := i # settled b\<rparr>)"

text \<open>
  One event, if the page is still there (no redirect, no reload) and the event is possible;
  then a sequence of events, \<open>None\<close> as soon as one of them is not possible.
\<close>

definition step :: "variant \<Rightarrow> json \<Rightarrow> 'r event \<Rightarrow> 'r world \<Rightarrow> 'r world option" where
  "step v J e w =
     (if href (snd w) = None \<and> \<not> reloaded (snd w) \<and> offered w e then Some (handle v J e w)
      else None)"

fun run :: "variant \<Rightarrow> json \<Rightarrow> 'r event list \<Rightarrow> 'r world \<Rightarrow> 'r world option" where
  "run v J [] w = Some w"
| "run v J (e # es) w = (case step v J e w of None \<Rightarrow> None | Some w' \<Rightarrow> run v J es w')"

text \<open>A freshly opened page with empty storage and no query parameters.\<close>

definition fresh_browser :: browser where
  "fresh_browser =
     \<lparr>storage = Map.empty, search = Map.empty, href = None, reloaded = False,
      requests = [], settled = []\<rparr>"


text \<open>
  Sample data for the concrete runs below: two users, the second as \<open>App.js\<close> builds one from
  a callback without a name, the texts \<open>JSON.stringify\<close> prints for them, and a stand-in for
  the platform's JSON functions that agrees with them on these texts and on \<open>null\<close>.
\<close>

definition alice :: profile where
  "alice = \<lparr>email = lit ''a@x.com'', name = Some (lit ''A''), uid = lit ''u1''\<rparr>"

definition alice_json :: jsstring where
  \<open>alice_json = lit ''{"id":"u1","name":"A","email":"a@x.com"}''\<close>

definition bob :: profile where
  "bob = \<lparr>email = lit ''b@x.com'', name = None, uid = lit ''b@x.com''\<rparr>"

definition bob_json :: jsstring where
  \<open>bob_json = lit ''{"email":"b@x.com","name":null,"id":"b@x.com"}''\<close>

definition sample_json :: json where
  "sample_json =
     \<lparr>JSON_parse = (\<lambda>t. if t = alice_json then Inr (Some alice)
                          else if t = bob_json then Inr (Some bob)
                          else if t = lit ''null'' then Inr None else Inl SyntaxError),
      JSON_stringify = (\<lambda>u. if u = alice then alice_json
                             else if u = bob then bob_json else lit ''{}'')\<rparr>"

text \<open>The query parameters of a successful OAuth callback for the second user.\<close>

definition bob_callback :: "string \<rightharpoonup> jsstring" where
  "bob_callback =
     [''auth'' \<mapsto> lit ''success'', ''token'' \<mapsto> lit ''t2'', ''user'' \<mapsto> lit ''b@x.com'']"


section \<open>White space\<close>

lemma dropWhile_all_iff: "(\<forall>x\<in>set (dropWhile P xs). P x) \<longleftrightarrow> (\<forall>x\<in>set xs. P x)"
  by (induction xs) auto

lemma trim_Nil_iff: "trim s = [] \<longleftrightarrow> whitespace_only s"
  by (simp add: trim_def whitespace_only_def list_all_iff dropWhile_all_iff)


section \<open>Reset\<close>

text \<open>
  C7. For every state, \<open>resetAnalysis\<close> clears the analysis result, the pasted text and the
  error message, and leaves the session and the manual-mode flag unchanged (as it does the
  time period and the loading flag).
\<close>

theorem resetAnalysis_clears_and_frames:
  "analysis (resetAnalysis s) = None \<and>
   calendarData (resetAnalysis s) = [] \<and>
   error (resetAnalysis s) = [] \<and>
   user (resetAnalysis s) = user s \<and>
   showManual (resetAnalysis s) = showManual s \<and>
   timePeriod (resetAnalysis s) = timePeriod s \<and>
   loading (resetAnalysis s) = loading s"
  by (simp add: resetAnalysis_def)


section \<open>Messages are not empty\<close>

lemma lit_eq_Nil [simp]: "lit s = [] \<longleftrightarrow> s = []"
  by (simp add: lit_def)

lemma msg_paste_first_nonempty: "msg_paste_first v \<noteq> []"
  by (cases v) simp_all

lemma msg_manual_failed_nonempty: "msg_manual_failed v \<noteq> []"
  by (cases v) simp_all

lemma detail_or_nonempty: "fallback \<noteq> [] \<Longrightarrow> detail_or err fallback \<noteq> []"
  by (simp add: detail_or_def split: option.split)

lemma msg_manual_failed_not_required: "msg_manual_failed v \<noteq> msg_calendar_access_required"
  by (cases v) (simp_all add: msg_calendar_access_required_def lit_def)


section \<open>Manual analysis: validation\<close>

text \<open>
  C1. For every state whose pasted text is empty or consists of white space only,
  \<open>analyzeCalendarManual\<close> issues no call (the browser, with its list of calls, is unchanged)
  and sets the validation message, which is not empty; nothing else of the state changes, so
  loading, result and session are as before. For every state whose text is not of that
  kind, it issues the analysis call with the text and the time period.
\<close>

theorem analyzeCalendarManual_rejects_blank_else_requests:
  "(whitespace_only (calendarData s) \<longrightarrow>
      analyzeCalendarManual v reply (s, b) = (s\<lparr>error := msg_paste_first v\<rparr>, b) \<and>
      analyzeCalendarManual_begin v (s, b) = (s\<lparr>error := msg_paste_first v\<rparr>, b) \<and>
      msg_paste_first v \<noteq> []) \<and>
   (\<not> whitespace_only (calendarData s) \<longrightarrow>
      requests (snd (analyzeCalendarManual_begin v (s, b))) =
        requests b @ [PostAnalyzeManual (calendarData s) (timePeriod s)] \<and>
      requests (snd (analyzeCalendarManual v reply (s, b))) =
        requests b @ [PostAnalyzeManual (calendarData s) (timePeriod s)])"
  by (simp add: trim_Nil_iff msg_paste_first_nonempty)

theorem analyzeCalendarManual_rejects_blank_else_requests_witness:
  "whitespace_only (lit ''   '') \<and>
   analyzeCalendarManual App_js (Inr (Some (7::nat)))
       (initial_state\<lparr>calendarData := lit ''   ''\<rparr>, fresh_browser) =
     (initial_state\<lparr>calendarData := lit ''   '', error := msg_paste_first App_js\<rparr>,
      fresh_browser) \<and>
   \<not> whitespace_only (lit ''9:00 AM - 10:00 AM: Team Meeting'') \<and>
   requests (snd (analyzeCalendarManual App_js (Inr (Some (7::nat)))
       (initial_state\<lparr>calendarData := lit ''9:00 AM - 10:00 AM: Team Meeting''\<rparr>,
        fresh_browser))) =
     [PostAnalyzeManual (lit ''9:00 AM - 10:00 AM: Team Meeting'') (lit ''this_week'')]"
  using analyzeCalendarManual_rejects_blank_else_requests
      [of "initial_state\<lparr>calendarData := lit ''   ''\<rparr>" App_js "Inr (Some (7::nat))" fresh_browser]
    analyzeCalendarManual_rejects_blank_else_requests
      [of "initial_state\<lparr>calendarData := lit ''9:00 AM - 10:00 AM: Team Meeting''\<rparr>" App_js
          "Inr (Some (7::nat))" fresh_browser]
  by (simp add: whitespace_only_def is_white_space_def lit_def initial_state_def
      fresh_browser_def)


section \<open>Screen selection\<close>

text \<open>
  C2. The screen \<open>App\<close> returns is a function of the manual-mode flag and of whether there is
  a session, in every state (so in every reachable one): with the flag set it is the
  manual-entry screen, whatever the session; otherwise it is the login screen when the
  session is \<open>null\<close> and the dashboard when it is not. \<open>App\<close> returns one tree, so never two
  screens at once; two states that agree on the flag and on the presence of a session show
  the same screen.
\<close>

theorem App_screen_selection:
  fixes s t :: "'r app_state"
  shows "(showManual s \<longrightarrow> App s = ManualEntryScreen) \<and>
   (\<not> showManual s \<and> user s = None \<longrightarrow> App s = LoginScreen) \<and>
   (\<not> showManual s \<and> user s \<noteq> None \<longrightarrow> App s = DashboardScreen) \<and>
   (showManual t = showManual s \<and> (user t = None) = (user s = None) \<longrightarrow> App t = App s)"
  by (simp add: App_def)

theorem App_screen_selection_witness:
  "App ((initial_state :: nat app_state)\<lparr>showManual := True, user := Some alice\<rparr>) =
     ManualEntryScreen \<and>
   App (initial_state :: nat app_state) = LoginScreen \<and>
   App ((initial_state :: nat app_state)\<lparr>user := Some alice\<rparr>) = DashboardScreen \<and>
   App ((initial_state :: nat app_state)
          \<lparr>user := Some alice, loading := True, error := lit ''e''\<rparr>) =
     App ((initial_state :: nat app_state)\<lparr>user := Some alice\<rparr>)"
  using App_screen_selection
      [of "(initial_state :: nat app_state)\<lparr>showManual := True, user := Some alice\<rparr>"
          "initial_state :: nat app_state"]
    App_screen_selection [of "initial_state :: nat app_state" "initial_state :: nat app_state"]
    App_screen_selection
      [of "(initial_state :: nat app_state)\<lparr>user := Some alice\<rparr>"
          "(initial_state :: nat app_state)
             \<lparr>user := Some alice, loading := True, error := lit ''e''\<rparr>"]
  by (simp add: initial_state_def)


section \<open>Logout\<close>

text \<open>
  C3, as the claim states it, fails: after signing in, choosing another time period and
  logging out, the state is the first-load state except for the time period, which is still
  the one chosen.
\<close>

theorem logout_keeps_timePeriod_counterexample:
  "map_option fst (run App_js sample_json
     [GoogleLoginSuccess (lit ''credential''), Settle 0 (LoginReply (Inr (lit ''t1'', alice))),
      SelectTimePeriod (lit ''this_month''), ClickLogout]
     (initial_state, fresh_browser)) =
   Some ((initial_state :: nat app_state)\<lparr>timePeriod := lit ''this_month''\<rparr>) \<and>
   (initial_state :: nat app_state)\<lparr>timePeriod := lit ''this_month''\<rparr> \<noteq> initial_state"
  by (simp add: step_def initial_state_def fresh_browser_def App_def dashboard_options_def
      lit_def)

text \<open>
  C3, amended. For every state, \<open>logout\<close> clears the session and the manual-mode flag,
  removes the token slot and the profile slot from storage, and clears result, pasted text
  and error, so that the login screen is shown. The time period and the loading flag keep
  their values: the state after logout is the first-load state exactly when the time period
  was the initial one and loading was false.
\<close>

theorem logout_effect:
  "user (fst (logout (s, b))) = None \<and>
   showManual (fst (logout (s, b))) = False \<and>
   analysis (fst (logout (s, b))) = None \<and>
   calendarData (fst (logout (s, b))) = [] \<and>
   error (fst (logout (s, b))) = [] \<and>
   timePeriod (fst (logout (s, b))) = timePeriod s \<and>
   loading (fst (logout (s, b))) = loading s \<and>
   storage (snd (logout (s, b))) ''access_token'' = None \<and>
   storage (snd (logout (s, b))) ''user_data'' = None \<and>
   App (fst (logout (s, b))) = LoginScreen \<and>
   (fst (logout (s, b)) = initial_state \<longleftrightarrow> timePeriod s = lit ''this_week'' \<and> \<not> loading s)"
  by (cases s) (auto simp add: App_def initial_state_def)

theorem logout_effect_witness:
  "fst (logout ((initial_state :: nat app_state)
          \<lparr>user := Some alice, analysis := Some 7, error := lit ''e'', showManual := True\<rparr>,
        fresh_browser\<lparr>storage := [''access_token'' \<mapsto> lit ''t1'', ''user_data'' \<mapsto> alice_json]\<rparr>)) =
     initial_state"
  using logout_effect
      [of "(initial_state :: nat app_state)
             \<lparr>user := Some alice, analysis := Some 7, error := lit ''e'', showManual := True\<rparr>"
          "fresh_browser\<lparr>storage := [''access_token'' \<mapsto> lit ''t1'', ''user_data'' \<mapsto> alice_json]\<rparr>"]
  by (simp add: initial_state_def)


section \<open>Analysis: how a call is settled\<close>

lemma msg_auto_failed_nonempty: "msg_auto_failed \<noteq> []"
  by (simp add: msg_auto_failed_def)

lemma msg_calendar_access_required_nonempty: "msg_calendar_access_required \<noteq> []"
  by (simp add: msg_calendar_access_required_def)

lemma analyzeCalendarAuto_Inr:
  "fst (analyzeCalendarAuto (Inr d) (s, b)) =
     s\<lparr>loading := False, error := [], analysis := d\<rparr>"
  by (simp add: analyzeCalendarAuto_def)

lemma analyzeCalendarAuto_Inl:
  "fst (analyzeCalendarAuto (Inl e) (s, b)) =
     s\<lparr>loading := False,
       error := (if status e = Some 401 then msg_calendar_access_required
                 else detail_or e msg_auto_failed)\<rparr>"
  by (simp add: analyzeCalendarAuto_def)

text \<open>
  C4, as the claim states it, fails. Calls are not sequenced and the sign-in resets the
  loading flag, so a second analysis can start while the first is in flight: on the
  manual-entry screen a text is analysed (call 0), the user goes back, a sign-in fails
  (call 1), and the same text is analysed again (call 2). Call 0 then succeeds and call 2
  fails: after this completed analysis, loading is false, the result is present and the
  error is not empty.
\<close>

theorem analyze_result_and_error_counterexample:
  "map_option (loading \<circ> fst) (run App_js sample_json
     [ClickShowManual, EditCalendarData (lit ''x''), ClickAnalyzeManual, ClickBackToLogin,
      GoogleLoginSuccess (lit ''c''), Settle 1 (LoginReply (Inl NoResponse)), ClickShowManual,
      ClickAnalyzeManual, Settle 0 (AnalysisReply (Inr (Some (7::nat)))),
      Settle 2 (AnalysisReply (Inl NoResponse))]
     (initial_state, fresh_browser)) = Some False \<and>
   map_option (analysis \<circ> fst) (run App_js sample_json
     [ClickShowManual, EditCalendarData (lit ''x''), ClickAnalyzeManual, ClickBackToLogin,
      GoogleLoginSuccess (lit ''c''), Settle 1 (LoginReply (Inl NoResponse)), ClickShowManual,
      ClickAnalyzeManual, Settle 0 (AnalysisReply (Inr (Some (7::nat)))),
      Settle 2 (AnalysisReply (Inl NoResponse))]
     (initial_state, fresh_browser)) = Some (Some 7) \<and>
   map_option (error \<circ> fst) (run App_js sample_json
     [ClickShowManual, EditCalendarData (lit ''x''), ClickAnalyzeManual, ClickBackToLogin,
      GoogleLoginSuccess (lit ''c''), Settle 1 (LoginReply (Inl NoResponse)), ClickShowManual,
      ClickAnalyzeManual, Settle 0 (AnalysisReply (Inr (Some (7::nat)))),
      Settle 2 (AnalysisReply (Inl NoResponse))]
     (initial_state, fresh_browser)) =
     Some (lit ''Failed to analyze your freedom. Please try again.'')"
  by (simp add: step_def initial_state_def fresh_browser_def App_def lit_def trim_def
      is_white_space_def detail_or_def)

text \<open>
  C4, amended. After an automatic analysis, or a manual analysis of a text that is not
  blank, with nothing else happening between the call and its reply, loading is false. On
  success the result is the body of the response and the error is empty, so exactly one of
  "result present" and "error not empty" holds exactly when the body is a result, not
  \<open>null\<close> or empty. On failure the error is not empty and the result is as it was before,
  so exactly one of the two holds exactly when no result was present when the operation
  started.
\<close>

theorem analyze_settles_exactly_one:
  fixes s s' :: "'r app_state"
  assumes "s' = fst (analyzeCalendarAuto reply (s, b)) \<or>
    \<not> whitespace_only (calendarData s) \<and> s' = fst (analyzeCalendarManual v reply (s, b))"
  shows "\<not> loading s' \<and>
    (\<forall>d. reply = Inr d \<longrightarrow>
       analysis s' = d \<and> error s' = [] \<and>
       ((analysis s' \<noteq> None) \<noteq> (error s' \<noteq> []) \<longleftrightarrow> d \<noteq> None)) \<and>
    (\<forall>e. reply = Inl e \<longrightarrow>
       analysis s' = analysis s \<and> error s' \<noteq> [] \<and>
       ((analysis s' \<noteq> None) \<noteq> (error s' \<noteq> []) \<longleftrightarrow> analysis s = None))"
proof (cases reply)
  case (Inl e)
  with assms show ?thesis
    by (auto simp add: analyzeCalendarAuto_Inl trim_Nil_iff detail_or_nonempty
        msg_auto_failed_nonempty msg_manual_failed_nonempty
        msg_calendar_access_required_nonempty split: if_splits)
next
  case (Inr d)
  with assms show ?thesis
    by (auto simp add: analyzeCalendarAuto_Inr trim_Nil_iff)
qed

theorem analyze_settles_exactly_one_witness:
  "\<not> loading (fst (analyzeCalendarAuto (Inl (HttpError 500 None))
       (initial_state :: nat app_state, fresh_browser))) \<and>
   analysis (fst (analyzeCalendarAuto (Inl (HttpError 500 None))
       (initial_state :: nat app_state, fresh_browser))) = None \<and>
   error (fst (analyzeCalendarAuto (Inl (HttpError 500 None))
       (initial_state :: nat app_state, fresh_browser))) \<noteq> [] \<and>
   \<not> whitespace_only (lit ''x'') \<and>
   \<not> loading (fst (analyzeCalendarManual App_js (Inr (Some 7))
       ((initial_state :: nat app_state)\<lparr>calendarData := lit ''x''\<rparr>, fresh_browser))) \<and>
   analysis (fst (analyzeCalendarManual App_js (Inr (Some 7))
       ((initial_state :: nat app_state)\<lparr>calendarData := lit ''x''\<rparr>, fresh_browser))) =
     Some 7 \<and>
   error (fst (analyzeCalendarManual App_js (Inr (Some 7))
       ((initial_state :: nat app_state)\<lparr>calendarData := lit ''x''\<rparr>, fresh_browser))) = [] \<and>
   analysis (fst (analyzeCalendarAuto (Inr None)
       (initial_state :: nat app_state, fresh_browser))) = None \<and>
   error (fst (analyzeCalendarAuto (Inr None)
       (initial_state :: nat app_state, fresh_browser))) = []"
  using analyze_settles_exactly_one
      [where s = "initial_state :: nat app_state" and reply = "Inl (HttpError 500 None)"
        and b = fresh_browser and v = App_js
        and s' = "fst (analyzeCalendarAuto (Inl (HttpError 500 None))
                    (initial_state :: nat app_state, fresh_browser))"]
    analyze_settles_exactly_one
      [where s = "(initial_state :: nat app_state)\<lparr>calendarData := lit ''x''\<rparr>"
        and reply = "Inr (Some 7)" and b = fresh_browser and v = App_js
        and s' = "fst (analyzeCalendarManual App_js (Inr (Some 7))
                    ((initial_state :: nat app_state)\<lparr>calendarData := lit ''x''\<rparr>,
                     fresh_browser))"]
    analyze_settles_exactly_one
      [where s = "initial_state :: nat app_state" and reply = "Inr None"
        and b = fresh_browser and v = App_js
        and s' = "fst (analyzeCalendarAuto (Inr None)
                    (initial_state :: nat app_state, fresh_browser))"]
  by (simp add: whitespace_only_def is_white_space_def lit_def initial_state_def)


section \<open>Analysis: the error shown\<close>

text \<open>
  C5. For every failure of the automatic analysis: with status 401 the error is the
  authorization-required message; otherwise it is the \<open>detail\<close> of the response when there is
  one and it is not empty, else the fallback text. The manual analysis has no case for 401
  and never produces that message: for every failure its error is the \<open>detail\<close> when there is
  one and it is not empty, else its own fallback text, which is not the
  authorization-required message; a reply with status 401 gives the error that any other
  status with the same body gives; and the error is the authorization-required text only
  when the \<open>detail\<close> of the backend is that very text.
\<close>

theorem analyze_error_message:
  "error (fst (analyzeCalendarAuto (Inl err) (s, b))) =
     (if status err = Some 401 then msg_calendar_access_required
      else case detail err of
             None \<Rightarrow> msg_auto_failed
           | Some m \<Rightarrow> if m = [] then msg_auto_failed else m) \<and>
   (\<not> whitespace_only (calendarData s) \<longrightarrow>
      error (fst (analyzeCalendarManual v (Inl err) (s, b))) =
        (case detail err of
           None \<Rightarrow> msg_manual_failed v
         | Some m \<Rightarrow> if m = [] then msg_manual_failed v else m) \<and>
      msg_manual_failed v \<noteq> msg_calendar_access_required \<and>
      error (fst (analyzeCalendarManual v (Inl (HttpError 401 d)) (s, b))) =
        error (fst (analyzeCalendarManual v (Inl (HttpError n d)) (s, b))) \<and>
      (error (fst (analyzeCalendarManual v (Inl err) (s, b))) = msg_calendar_access_required
         \<longleftrightarrow> detail err = Some msg_calendar_access_required))"
  using msg_manual_failed_not_required [of v] msg_calendar_access_required_nonempty
  by (auto simp add: analyzeCalendarAuto_Inl trim_Nil_iff detail_or_def
      split: option.splits)

theorem analyze_error_message_witness:
  "error (fst (analyzeCalendarAuto (Inl (HttpError 401 (Some (lit ''Not authenticated''))))
      ((initial_state :: nat app_state), fresh_browser))) = msg_calendar_access_required \<and>
   error (fst (analyzeCalendarAuto (Inl (HttpError 500 (Some (lit ''boom''))))
      ((initial_state :: nat app_state), fresh_browser))) = lit ''boom'' \<and>
   error (fst (analyzeCalendarAuto (Inl NoResponse)
      ((initial_state :: nat app_state), fresh_browser))) = msg_auto_failed \<and>
   \<not> whitespace_only (lit ''x'') \<and>
   error (fst (analyzeCalendarManual App_js (Inl (HttpError 401 None))
      ((initial_state :: nat app_state)\<lparr>calendarData := lit ''x''\<rparr>, fresh_browser))) =
     msg_manual_failed App_js"
  using analyze_error_message
      [where err = "HttpError 401 (Some (lit ''Not authenticated''))"
        and s = "initial_state :: nat app_state" and b = fresh_browser and v = App_js]
    analyze_error_message
      [where err = "HttpError 500 (Some (lit ''boom''))"
        and s = "initial_state :: nat app_state" and b = fresh_browser and v = App_js]
    analyze_error_message
      [where err = "NoResponse" and s = "initial_state :: nat app_state"
        and b = fresh_browser and v = App_js]
    analyze_error_message
      [where err = "HttpError 401 None"
        and s = "(initial_state :: nat app_state)\<lparr>calendarData := lit ''x''\<rparr>"
        and b = fresh_browser and v = App_js]
  by (simp add: whitespace_only_def is_white_space_def lit_def initial_state_def)


section \<open>Time periods\<close>

text \<open>
  The selector of the dashboard offers the documented spellings, and the initial time period
  is one of them; it is not among the options of the selector of the manual-entry screen.
\<close>

lemma dashboard_options_documented:
  "dashboard_options = spec_time_periods \<and>
   timePeriod (initial_state :: 'r app_state) \<in> set spec_time_periods \<and>
   timePeriod (initial_state :: 'r app_state) \<notin> set manual_options"
  by (simp add: dashboard_options_def spec_time_periods_def manual_options_def
      initial_state_def lit_def)

text \<open>
  C6 does not hold of the code: the selector of the manual-entry screen offers
  \<open>this week\<close>, which is none of the documented spellings, and after choosing it the manual
  analysis sends it as \<open>time_period\<close>.
\<close>

theorem manual_selector_sends_undocumented_period:
  "lit ''this week'' \<in> set manual_options \<and>
   lit ''this week'' \<notin> set spec_time_periods \<and>
   map_option (requests \<circ> snd) (run App_js sample_json
     [ClickShowManual, SelectTimePeriod (lit ''this week''), EditCalendarData (lit ''x''),
      ClickAnalyzeManual]
     ((initial_state :: nat app_state), fresh_browser)) =
   Some [PostAnalyzeManual (lit ''x'') (lit ''this week'')]"
  by (simp add: step_def initial_state_def fresh_browser_def App_def lit_def trim_def
      is_white_space_def manual_options_def spec_time_periods_def)


section \<open>Initialisation\<close>

lemma restore_session_skip:
  "\<not> (truthy (storage b ''access_token'') \<and> truthy (storage b ''user_data'')) \<Longrightarrow>
   restore_session J (s, b) = Inr (s, b)"
  by (auto simp add: restore_session_def truthy_def split: option.splits)

lemma restore_session_parse:
  "storage b ''access_token'' = Some token \<Longrightarrow> token \<noteq> [] \<Longrightarrow>
   storage b ''user_data'' = Some userData \<Longrightarrow> userData \<noteq> [] \<Longrightarrow>
   restore_session J (s, b) =
     (case JSON_parse J userData of Inl e \<Rightarrow> Inl e | Inr u \<Rightarrow> Inr (s\<lparr>user := u\<rparr>, b))"
  by (simp add: restore_session_def)

lemma callback_credentials_error:
  "search b ''auth'' = Some (lit ''error'') \<Longrightarrow> callback_credentials b = None"
  by (simp add: callback_credentials_def lit_def)

lemma oauth_callback_error:
  "search b ''auth'' = Some (lit ''error'') \<Longrightarrow>
   oauth_callback v J (s, b) = (s\<lparr>error := msg_oauth_failed\<rparr>, b)"
  by (cases v) (simp_all add: callback_credentials_error, simp add: lit_def)

lemma oauth_callback_session:
  fixes s :: "'r app_state"
  assumes "user s = Some u" and "\<not> showManual s"
  shows "user (fst (oauth_callback v J (s, b))) \<noteq> None \<and>
    App (fst (oauth_callback v J (s, b))) = DashboardScreen \<and>
    (v = Part_001 \<or> callback_credentials b = None \<longrightarrow>
       user (fst (oauth_callback v J (s, b))) = Some u \<and>
       storage (snd (oauth_callback v J (s, b))) = storage b) \<and>
    (\<forall>authToken userEmail.
       v = App_js \<and> callback_credentials b = Some (authToken, userEmail) \<longrightarrow>
       user (fst (oauth_callback v J (s, b))) =
         Some \<lparr>email = userEmail, name = search b ''name'', uid = userEmail\<rparr>)"
  using assms by (cases v) (auto simp add: App_def Let_def split: option.splits)


subsection \<open>A failed OAuth callback\<close>

text \<open>
  C8, as the claim states it, fails: the session is restored from storage before the query
  parameters are looked at, so a load with \<open>auth=error\<close> and a stored token and profile ends
  with the error message set and with a session.
\<close>

theorem useEffect_auth_error_restores_counterexample:
  "useEffect App_js sample_json
     (initial_state :: nat app_state,
      fresh_browser\<lparr>storage := [''access_token'' \<mapsto> lit ''t1'', ''user_data'' \<mapsto> alice_json],
                    search := [''auth'' \<mapsto> lit ''error'']\<rparr>) =
   Inr (initial_state\<lparr>user := Some alice, error := msg_oauth_failed\<rparr>,
        fresh_browser\<lparr>storage := [''access_token'' \<mapsto> lit ''t1'', ''user_data'' \<mapsto> alice_json],
                      search := [''auth'' \<mapsto> lit ''error'']\<rparr>)"
  by (simp add: useEffect_def restore_session_def sample_json_def callback_credentials_def
      fresh_browser_def lit_def alice_json_def)

text \<open>
  C8, amended. For every initial load whose query string has \<open>auth=error\<close>: when storage
  lacks a non-empty token or a non-empty profile (so also when it is empty), initialisation
  sets the OAuth-callback error message, which is not empty, and changes nothing else: the
  session stays \<open>null\<close> and the browser is untouched. When storage holds both and the profile
  parses, initialisation sets the same message, the session is the parsed profile, and the
  browser is untouched.
\<close>

theorem useEffect_auth_error:
  assumes "search b ''auth'' = Some (lit ''error'')"
  shows "msg_oauth_failed \<noteq> [] \<and>
    (\<not> (truthy (storage b ''access_token'') \<and> truthy (storage b ''user_data'')) \<longrightarrow>
       useEffect v J (initial_state :: 'r app_state, b) =
         Inr (initial_state\<lparr>error := msg_oauth_failed\<rparr>, b)) \<and>
    (\<forall>token userData u.
       storage b ''access_token'' = Some token \<and> token \<noteq> [] \<and>
       storage b ''user_data'' = Some userData \<and> userData \<noteq> [] \<and>
       JSON_parse J userData = Inr u \<longrightarrow>
       useEffect v J (initial_state :: 'r app_state, b) =
         Inr (initial_state\<lparr>user := u, error := msg_oauth_failed\<rparr>, b))"
  using assms
  by (simp add: useEffect_def restore_session_skip restore_session_parse oauth_callback_error
      msg_oauth_failed_def)

theorem useEffect_auth_error_witness:
  "useEffect App_js sample_json
     (initial_state :: nat app_state, fresh_browser\<lparr>search := [''auth'' \<mapsto> lit ''error'']\<rparr>) =
   Inr (initial_state\<lparr>error := msg_oauth_failed\<rparr>,
        fresh_browser\<lparr>search := [''auth'' \<mapsto> lit ''error'']\<rparr>)"
  using useEffect_auth_error
      [where b = "fresh_browser\<lparr>search := [''auth'' \<mapsto> lit ''error'']\<rparr>"
        and v = App_js and J = sample_json, where ?'r = nat]
  by (simp add: fresh_browser_def truthy_def)


subsection \<open>A stored session\<close>

text \<open>
  C9, as the claim states it, fails in \<open>App.js\<close>: when the page is loaded by a successful
  OAuth callback that carries a token and a user, the session after initialisation is the
  user of the callback, not the stored profile.
\<close>

theorem useEffect_callback_overrides_counterexample:
  "useEffect App_js sample_json
     (initial_state :: nat app_state,
      fresh_browser\<lparr>storage := [''access_token'' \<mapsto> lit ''t1'', ''user_data'' \<mapsto> alice_json],
                    search := bob_callback\<rparr>) =
   Inr (initial_state\<lparr>user := Some bob\<rparr>,
        fresh_browser\<lparr>storage := [''access_token'' \<mapsto> lit ''t2'', ''user_data'' \<mapsto> bob_json]\<rparr>) \<and>
   JSON_parse sample_json alice_json = Inr (Some alice) \<and>
   bob \<noteq> alice"
  by (simp add: useEffect_def restore_session_def sample_json_def callback_credentials_def
      fresh_browser_def lit_def alice_json_def bob_json_def bob_callback_def alice_def bob_def
      Let_def)

text \<open>
  C9, amended. For every initial load where storage holds a non-empty token and a non-empty
  profile text that parses to a user object, initialisation completes with a session, so
  the screen shown is the dashboard and not the login screen. The session is the stored
  profile, and storage is unchanged, in \<open>part_001\<close> always and in \<open>App.js\<close> unless the query
  string is a successful callback with a token and a user; then the session is the user of
  the callback.
\<close>

theorem useEffect_restores_session:
  assumes "storage b ''access_token'' = Some token" and "token \<noteq> []"
    and "storage b ''user_data'' = Some userData" and "userData \<noteq> []"
    and "JSON_parse J userData = Inr (Some u)"
  shows "\<exists>(s' :: 'r app_state) b'. useEffect v J (initial_state, b) = Inr (s', b') \<and>
    user s' \<noteq> None \<and> App s' = DashboardScreen \<and>
    (v = Part_001 \<or> callback_credentials b = None \<longrightarrow>
       user s' = Some u \<and> storage b' = storage b) \<and>
    (\<forall>authToken userEmail.
       v = App_js \<and> callback_credentials b = Some (authToken, userEmail) \<longrightarrow>
       user s' = Some \<lparr>email = userEmail, name = search b ''name'', uid = userEmail\<rparr>)"
proof -
  let ?s = "(initial_state :: 'r app_state)\<lparr>user := Some u\<rparr>"
  let ?w = "oauth_callback v J (?s, b)"
  from assms have "restore_session J (initial_state :: 'r app_state, b) = Inr (?s, b)"
    by (simp add: restore_session_parse)
  then have run: "useEffect v J (initial_state :: 'r app_state, b) = Inr (fst ?w, snd ?w)"
    by (simp add: useEffect_def)
  have "user ?s = Some u" and "\<not> showManual ?s"
    by (simp_all add: initial_state_def)
  from oauth_callback_session [OF this, of v J b]
  have props: "user (fst ?w) \<noteq> None \<and> App (fst ?w) = DashboardScreen \<and>
    (v = Part_001 \<or> callback_credentials b = None \<longrightarrow>
       user (fst ?w) = Some u \<and> storage (snd ?w) = storage b) \<and>
    (\<forall>authToken userEmail.
       v = App_js \<and> callback_credentials b = Some (authToken, userEmail) \<longrightarrow>
       user (fst ?w) = Some \<lparr>email = userEmail, name = search b ''name'', uid = userEmail\<rparr>)" .
  show ?thesis
  proof (intro exI conjI)
    show "useEffect v J (initial_state :: 'r app_state, b) = Inr (fst ?w, snd ?w)"
      by (rule run)
  qed (use props in blast)+
qed

theorem useEffect_restores_session_witness:
  "map_sum id (\<lambda>w. (user (fst w), App (fst w))) (useEffect App_js sample_json
     (initial_state :: nat app_state,
      fresh_browser\<lparr>storage := [''access_token'' \<mapsto> lit ''t1'', ''user_data'' \<mapsto> alice_json]\<rparr>)) =
   Inr (Some alice, DashboardScreen)"
  using useEffect_restores_session
      [where b = "fresh_browser\<lparr>storage := [''access_token'' \<mapsto> lit ''t1'',
                                              ''user_data'' \<mapsto> alice_json]\<rparr>"
        and token = "lit ''t1''" and userData = alice_json and J = sample_json and u = alice
        and v = App_js, where ?'r = nat]
  by (auto simp add: fresh_browser_def sample_json_def alice_json_def callback_credentials_def)


subsection \<open>One slot only\<close>

text \<open>
  C10, as the claim states it, fails in \<open>App.js\<close>: with the token slot alone in storage and
  a successful callback with a token and a user in the query string, initialisation ends
  with a session and with the token slot overwritten.
\<close>

theorem useEffect_one_slot_callback_counterexample:
  "useEffect App_js sample_json
     (initial_state :: nat app_state,
      fresh_browser\<lparr>storage := [''access_token'' \<mapsto> lit ''t1''], search := bob_callback\<rparr>) =
   Inr (initial_state\<lparr>user := Some bob\<rparr>,
        fresh_browser\<lparr>storage := [''access_token'' \<mapsto> lit ''t2'', ''user_data'' \<mapsto> bob_json]\<rparr>) \<and>
   lit ''t2'' \<noteq> lit ''t1''"
  by (simp add: useEffect_def restore_session_def sample_json_def callback_credentials_def
      fresh_browser_def lit_def bob_json_def bob_callback_def alice_def bob_def Let_def)

text \<open>
  C10, amended. For every initial load where exactly one of the token slot and the profile
  slot is present in storage, the restoring step changes nothing and \<open>JSON.parse\<close> is not
  called: initialisation is the handling of the query string on the untouched first-load
  state. So no session is restored; the session stays \<open>null\<close> and storage stays as it was
  in \<open>part_001\<close> always and in \<open>App.js\<close> unless the query string is a successful callback with
  a token and a user.
\<close>

theorem useEffect_needs_both_slots:
  assumes "(storage b ''access_token'' = None) \<noteq> (storage b ''user_data'' = None)"
  shows "restore_session J (initial_state :: 'r app_state, b) = Inr (initial_state, b) \<and>
    useEffect v J (initial_state :: 'r app_state, b) =
      Inr (oauth_callback v J (initial_state, b)) \<and>
    (v = Part_001 \<or> callback_credentials b = None \<longrightarrow>
       user (fst (oauth_callback v J (initial_state :: 'r app_state, b))) = None \<and>
       storage (snd (oauth_callback v J (initial_state :: 'r app_state, b))) = storage b)"
proof -
  from assms have "\<not> (truthy (storage b ''access_token'') \<and> truthy (storage b ''user_data''))"
    by (auto simp add: truthy_def)
  then have skip: "restore_session J (initial_state :: 'r app_state, b) = Inr (initial_state, b)"
    by (rule restore_session_skip)
  then have run: "useEffect v J (initial_state :: 'r app_state, b) =
      Inr (oauth_callback v J (initial_state, b))"
    by (simp add: useEffect_def)
  have "v = Part_001 \<or> callback_credentials b = None \<longrightarrow>
       user (fst (oauth_callback v J (initial_state :: 'r app_state, b))) = None \<and>
       storage (snd (oauth_callback v J (initial_state :: 'r app_state, b))) = storage b"
    by (cases v) (auto simp add: initial_state_def)
  with skip run show ?thesis
    by (intro conjI)
qed

theorem useEffect_needs_both_slots_witness:
  "useEffect App_js sample_json
     (initial_state :: nat app_state,
      fresh_browser\<lparr>storage := [''access_token'' \<mapsto> lit ''t1'']\<rparr>) =
   Inr (initial_state, fresh_browser\<lparr>storage := [''access_token'' \<mapsto> lit ''t1'']\<rparr>)"
  using useEffect_needs_both_slots
      [where b = "fresh_browser\<lparr>storage := [''access_token'' \<mapsto> lit ''t1'']\<rparr>"
        and v = App_js and J = sample_json, where ?'r = nat]
  by (simp add: fresh_browser_def callback_credentials_def)

end
